theory Spec2Isabelle
  imports Main "HOL-Library.Word"
begin

section \<open>The hid service handlers of hid\_server.cpp\<close>

text \<open>
  The development embeds the handlers of \<^verbatim>\<open>src/core/hle/service/hid/hid_server.cpp\<close>
  that the specification's properties are about: the activation list of
  \<^verbatim>\<open>IActiveVibrationDeviceList\<close> and a number of \<^verbatim>\<open>IHidServer\<close> commands.
  Every function of the file that is embedded keeps its name. Logging
  (\<^verbatim>\<open>LOG_DEBUG\<close> and friends) is left out: it changes no state that a handler reads.
\<close>

subsection \<open>Result codes\<close>

text \<open>
  Modelled from the spec: class \<^verbatim>\<open>Result\<close> and the constant \<^verbatim>\<open>ResultSuccess\<close> come from
  \<^verbatim>\<open>core/hle/result.h\<close>, which is not part of the file. Section 6 of the specification
  gives the result code as an unsigned 32-bit integer, 0 for success and nonzero for an
  error; \<^verbatim>\<open>IsSuccess\<close> and \<^verbatim>\<open>IsError\<close> test exactly that.
\<close>

type_synonym Result = "32 word"

text \<open>Modelled from the spec: \<^verbatim>\<open>ResultSuccess\<close> of \<^verbatim>\<open>core/hle/result.h\<close>; 0 is success.\<close>

definition ResultSuccess :: Result where
  "ResultSuccess = 0"

text \<open>Modelled from the spec: \<^verbatim>\<open>Result::IsSuccess\<close> of \<^verbatim>\<open>core/hle/result.h\<close>; 0 is success.\<close>

definition IsSuccess :: "Result \<Rightarrow> bool" where
  "IsSuccess r = (r = 0)"

text \<open>
  Modelled from the spec: \<^verbatim>\<open>Result::IsError\<close> of \<^verbatim>\<open>core/hle/result.h\<close>; nonzero is an error.
\<close>

definition IsError :: "Result \<Rightarrow> bool" where
  "IsError r = (r \<noteq> 0)"

subsection \<open>Device handles\<close>

text \<open>
  Modelled from the spec: \<^verbatim>\<open>Core::HID::VibrationDeviceHandle\<close> is declared outside the
  file. Section 3 of the specification gives a device handle as the composite key of
  device-kind, logical-id and sub-index. The code reads three members of it,
  \<^verbatim>\<open>npad_type\<close>, \<^verbatim>\<open>npad_id\<close> and \<^verbatim>\<open>device_index\<close>, and only compares them for equality;
  they are bytes here. Whatever else the structure holds (padding, say) is
  the extension part of the record, so a handle is a value of the type
  \<open>'a VibrationDeviceHandle_scheme\<close> and two handles may agree on the three members and
  still differ as values.
\<close>

record VibrationDeviceHandle =
  npad_type :: "8 word"
  npad_id :: "8 word"
  device_index :: "8 word"

subsection \<open>The collaborators\<close>

text \<open>
  The resource manager, its devices and the firmware settings are external. Each call
  into them is a value of \<open>Call\<close>; the world outside the file is a state \<open>ext\<close> of an
  arbitrary type together with the log \<open>calls\<close> of the calls made so far, in order.
\<close>

datatype Device =
  DebugPad | TouchScreen | Mouse | Keyboard | Gesture | ConsoleSixAxis | SevenSixAxis

datatype ('a, 'v) Call =
    Initialize
      \<comment> \<open>\<^verbatim>\<open>resource_manager->Initialize()\<close>\<close>
  | Activate Device
      \<comment> \<open>\<^verbatim>\<open>device->Activate()\<close>\<close>
  | ActivateAruid Device "64 word"
      \<comment> \<open>\<^verbatim>\<open>device->Activate(applet_resource_user_id)\<close>\<close>
  | VibrationDeviceActivate "'a VibrationDeviceHandle_scheme"
      \<comment> \<open>\<^verbatim>\<open>resource_manager->GetVibrationDevice(handle)->Activate()\<close>\<close>
  | SendVibrationValue "64 word" "'a VibrationDeviceHandle_scheme" 'v
      \<comment> \<open>\<^verbatim>\<open>resource_manager->SendVibrationValue(aruid, handle, value)\<close>\<close>

record ('w, 'a, 'v) World =
  ext :: 'w
  calls :: "('a, 'v) Call list"

text \<open>
  What the file takes from its collaborators and from headers that are not part of it:
  the handle validator of \<^verbatim>\<open>hid_util.h\<close> (a pure function), two result constants of
  \<^verbatim>\<open>hid_result.h\<close>, the firmware settings' \<^verbatim>\<open>IsDeviceManaged\<close>, and \<open>respond\<close>, the result
  and effect of each call on the world outside.
\<close>

record ('w, 'a, 'v) Collaborators =
  IsVibrationHandleValid :: "'a VibrationDeviceHandle_scheme \<Rightarrow> Result"
  ResultVibrationDeviceIndexOutOfRange :: Result
  ResultVibrationArraySizeMismatch :: Result
  IsDeviceManaged :: "'w \<Rightarrow> bool"
  respond :: "('a, 'v) Call \<Rightarrow> 'w \<Rightarrow> Result \<times> 'w"

definition delegate ::
  "('w, 'a, 'v) Collaborators \<Rightarrow> ('a, 'v) Call \<Rightarrow> ('w, 'a, 'v) World
    \<Rightarrow> Result \<times> ('w, 'a, 'v) World" where
  "delegate env c w =
     (case respond env c (ext w) of
        (r, x) \<Rightarrow> (r, \<lparr>ext = x, calls = calls w @ [c]\<rparr>))"

subsection \<open>IActiveVibrationDeviceList\<close>

text \<open>
  The members \<^verbatim>\<open>list_size\<close> and \<^verbatim>\<open>vibration_device_list\<close>, an array of \<^verbatim>\<open>0x100\<close> handles.
  \<^verbatim>\<open>ActivateVibrationDeviceImpl\<close> holds the mutex from its first statement to its return,
  so the embedding is the function's body run as one step.
\<close>

record 'a IActiveVibrationDeviceList =
  list_size :: nat
  vibration_device_list :: "'a VibrationDeviceHandle_scheme list"

definition vibration_device_list_size :: nat where
  "vibration_device_list_size = 0x100"

text \<open>
  The object as constructed: \<^verbatim>\<open>list_size{}\<close> is 0 and every slot of the array holds the
  value-initialised handle \<open>h0\<close>.
\<close>

definition IActiveVibrationDeviceList_init ::
  "'a VibrationDeviceHandle_scheme \<Rightarrow> 'a IActiveVibrationDeviceList" where
  "IActiveVibrationDeviceList_init h0 =
     \<lparr>list_size = 0, vibration_device_list = replicate vibration_device_list_size h0\<rparr>"

text \<open>The comparison of lines 76 to 78: the incoming handle against a stored one.\<close>

definition same_handle ::
  "'a VibrationDeviceHandle_scheme \<Rightarrow> 'a VibrationDeviceHandle_scheme \<Rightarrow> bool" where
  "same_handle handle stored =
     (device_index handle = device_index stored \<and>
      npad_id handle = npad_id stored \<and>
      npad_type handle = npad_type stored)"

text \<open>
  The loop of lines 75 to 81, from index \<open>i\<close>: \<open>Some True\<close> when it returns from inside,
  \<open>Some False\<close> when it runs to the end. Indexing a \<^verbatim>\<open>std::array\<close> past its end is
  undefined behaviour: that is \<open>None\<close>.
\<close>

function find_handle ::
  "'a VibrationDeviceHandle_scheme \<Rightarrow> 'a IActiveVibrationDeviceList \<Rightarrow> nat \<Rightarrow> bool option" where
  "find_handle handle s i =
     (if i < list_size s then
        (if i < length (vibration_device_list s) then
           (if same_handle handle (vibration_device_list s ! i) then Some True
            else find_handle handle s (Suc i))
         else None)
      else Some False)"
  by pat_completeness auto
termination
  by (relation "measure (\<lambda>(handle, s, i). list_size s - i)") auto

declare find_handle.simps [simp del]

definition ActivateVibrationDeviceImpl ::
  "('w, 'a, 'v) Collaborators \<Rightarrow> 'a VibrationDeviceHandle_scheme
    \<Rightarrow> 'a IActiveVibrationDeviceList \<Rightarrow> ('w, 'a, 'v) World
    \<Rightarrow> (Result \<times> 'a IActiveVibrationDeviceList \<times> ('w, 'a, 'v) World) option" where
  "ActivateVibrationDeviceImpl env handle s w =
     (let is_valid = IsVibrationHandleValid env handle in
      if IsError is_valid then Some (is_valid, s, w)
      else
        (case find_handle handle s 0 of
           None \<Rightarrow> None
         | Some True \<Rightarrow> Some (ResultSuccess, s, w)
         | Some False \<Rightarrow>
             if list_size s = vibration_device_list_size
             then Some (ResultVibrationDeviceIndexOutOfRange env, s, w)
             else
               (case delegate env (VibrationDeviceActivate handle) w of
                  (result, w') \<Rightarrow>
                    if IsError result then Some (result, s, w')
                    else if list_size s < length (vibration_device_list s)
                    then Some (ResultSuccess,
                           s\<lparr>vibration_device_list :=
                               (vibration_device_list s)[list_size s := handle],
                             list_size := Suc (list_size s)\<rparr>,
                           w')
                    else None)))"

text \<open>
  The states the object can be in: the array has its \<^verbatim>\<open>0x100\<close> slots and \<^verbatim>\<open>list_size\<close>
  does not exceed them. \<open>active\<close> is the occupied part of the array.
\<close>

definition registry_ok :: "'a IActiveVibrationDeviceList \<Rightarrow> bool" where
  "registry_ok s =
     (length (vibration_device_list s) = vibration_device_list_size \<and>
      list_size s \<le> vibration_device_list_size)"

definition active ::
  "'a IActiveVibrationDeviceList \<Rightarrow> 'a VibrationDeviceHandle_scheme list" where
  "active s = take (list_size s) (vibration_device_list s)"

definition present ::
  "'a VibrationDeviceHandle_scheme \<Rightarrow> 'a IActiveVibrationDeviceList \<Rightarrow> bool" where
  "present handle s = list_ex (same_handle handle) (active s)"

text \<open>
  A client session that sends \<^verbatim>\<open>ActivateVibrationDevice\<close> once for each handle of a list, in
  order; the results come back in the same order. \<open>handle_key\<close> is the triple of members
  that the specification calls device-kind, logical-id and sub-index.
\<close>

fun activate_all ::
  "('w, 'a, 'v) Collaborators \<Rightarrow> 'a VibrationDeviceHandle_scheme list
    \<Rightarrow> 'a IActiveVibrationDeviceList \<Rightarrow> ('w, 'a, 'v) World
    \<Rightarrow> (Result list \<times> 'a IActiveVibrationDeviceList \<times> ('w, 'a, 'v) World) option" where
  "activate_all env [] s w = Some ([], s, w)"
| "activate_all env (handle # handles) s w =
     (case ActivateVibrationDeviceImpl env handle s w of
        None \<Rightarrow> None
      | Some (r, s', w') \<Rightarrow>
          (case activate_all env handles s' w' of
             None \<Rightarrow> None
           | Some (rs, s'', w'') \<Rightarrow> Some (r # rs, s'', w'')))"

definition handle_key ::
  "'a VibrationDeviceHandle_scheme \<Rightarrow> 8 word \<times> 8 word \<times> 8 word" where
  "handle_key handle = (npad_type handle, npad_id handle, device_index handle)"

subsection \<open>IHidServer\<close>

text \<open>
  A handler is embedded as a function of its decoded parameters and the world outside;
  it returns what it pushes into the response and the world it leaves.
  \<^verbatim>\<open>GetResourceManager\<close> (line 2496) initialises the resource manager on every use.
\<close>

definition GetResourceManager ::
  "('w, 'a, 'v) Collaborators \<Rightarrow> ('w, 'a, 'v) World \<Rightarrow> ('w, 'a, 'v) World" where
  "GetResourceManager env w = snd (delegate env Initialize w)"

definition ActivateDebugPad ::
  "('w, 'a, 'v) Collaborators \<Rightarrow> 64 word \<Rightarrow> ('w, 'a, 'v) World
    \<Rightarrow> Result \<times> ('w, 'a, 'v) World" where
  "ActivateDebugPad env applet_resource_user_id w0 =
     (let w1 = GetResourceManager env w0;
          (result, w2) =
            (if \<not> IsDeviceManaged env (ext w1) then delegate env (Activate DebugPad) w1
             else (ResultSuccess, w1))
      in if IsSuccess result
         then delegate env (ActivateAruid DebugPad applet_resource_user_id) w2
         else (result, w2))"

definition ActivateTouchScreen ::
  "('w, 'a, 'v) Collaborators \<Rightarrow> 64 word \<Rightarrow> ('w, 'a, 'v) World
    \<Rightarrow> Result \<times> ('w, 'a, 'v) World" where
  "ActivateTouchScreen env applet_resource_user_id w0 =
     (let w1 = GetResourceManager env w0;
          (result, w2) =
            (if \<not> IsDeviceManaged env (ext w1) then delegate env (Activate TouchScreen) w1
             else (ResultSuccess, w1))
      in if IsSuccess result
         then delegate env (ActivateAruid TouchScreen applet_resource_user_id) w2
         else (result, w2))"

definition ActivateMouse ::
  "('w, 'a, 'v) Collaborators \<Rightarrow> 64 word \<Rightarrow> ('w, 'a, 'v) World
    \<Rightarrow> Result \<times> ('w, 'a, 'v) World" where
  "ActivateMouse env applet_resource_user_id w0 =
     (let w1 = GetResourceManager env w0;
          (result, w2) =
            (if \<not> IsDeviceManaged env (ext w1) then delegate env (Activate Mouse) w1
             else (ResultSuccess, w1))
      in if IsSuccess result
         then delegate env (ActivateAruid Mouse applet_resource_user_id) w2
         else (result, w2))"

definition ActivateKeyboard ::
  "('w, 'a, 'v) Collaborators \<Rightarrow> 64 word \<Rightarrow> ('w, 'a, 'v) World
    \<Rightarrow> Result \<times> ('w, 'a, 'v) World" where
  "ActivateKeyboard env applet_resource_user_id w0 =
     (let w1 = GetResourceManager env w0;
          (result, w2) =
            (if \<not> IsDeviceManaged env (ext w1) then delegate env (Activate Keyboard) w1
             else (ResultSuccess, w1))
      in if IsSuccess result
         then delegate env (ActivateAruid Keyboard applet_resource_user_id) w2
         else (result, w2))"

text \<open>\<^verbatim>\<open>ActivateGesture\<close> decodes a gesture id as well and does not use it.\<close>

definition ActivateGesture ::
  "('w, 'a, 'v) Collaborators \<Rightarrow> 32 word \<Rightarrow> 64 word \<Rightarrow> ('w, 'a, 'v) World
    \<Rightarrow> Result \<times> ('w, 'a, 'v) World" where
  "ActivateGesture env basic_gesture_id applet_resource_user_id w0 =
     (let w1 = GetResourceManager env w0;
          (result, w2) =
            (if \<not> IsDeviceManaged env (ext w1) then delegate env (Activate Gesture) w1
             else (ResultSuccess, w1))
      in if IsSuccess result
         then delegate env (ActivateAruid Gesture applet_resource_user_id) w2
         else (result, w2))"

definition ActivateConsoleSixAxisSensor ::
  "('w, 'a, 'v) Collaborators \<Rightarrow> 64 word \<Rightarrow> ('w, 'a, 'v) World
    \<Rightarrow> Result \<times> ('w, 'a, 'v) World" where
  "ActivateConsoleSixAxisSensor env applet_resource_user_id w0 =
     (let w1 = GetResourceManager env w0;
          (result, w2) =
            (if \<not> IsDeviceManaged env (ext w1) then delegate env (Activate ConsoleSixAxis) w1
             else (ResultSuccess, w1))
      in if IsSuccess result
         then delegate env (ActivateAruid ConsoleSixAxis applet_resource_user_id) w2
         else (result, w2))"

text \<open>
  \<^verbatim>\<open>ActivateSevenSixAxisSensor\<close> (line 1909) drops the result of the second call and
  pushes \<^verbatim>\<open>ResultSuccess\<close>.
\<close>

definition ActivateSevenSixAxisSensor ::
  "('w, 'a, 'v) Collaborators \<Rightarrow> 64 word \<Rightarrow> ('w, 'a, 'v) World
    \<Rightarrow> Result \<times> ('w, 'a, 'v) World" where
  "ActivateSevenSixAxisSensor env applet_resource_user_id w0 =
     (let w1 = GetResourceManager env w0;
          (result, w2) =
            (if \<not> IsDeviceManaged env (ext w1) then delegate env (Activate SevenSixAxis) w1
             else (ResultSuccess, w1));
          w3 =
            (if IsSuccess result
             then snd (delegate env (ActivateAruid SevenSixAxis applet_resource_user_id) w2)
             else w2)
      in (ResultSuccess, w3))"

text \<open>The stubbed commands: parameters are decoded, logged and dropped.\<close>

definition SendKeyboardLockKeyEvent ::
  "32 word \<Rightarrow> ('w, 'a, 'v) World \<Rightarrow> Result \<times> ('w, 'a, 'v) World" where
  "SendKeyboardLockKeyEvent flags w = (ResultSuccess, w)"

definition ActivateXpad ::
  "32 word \<Rightarrow> 64 word \<Rightarrow> ('w, 'a, 'v) World \<Rightarrow> Result \<times> ('w, 'a, 'v) World" where
  "ActivateXpad basic_xpad_id applet_resource_user_id w = (ResultSuccess, w)"

definition DeactivateNpad ::
  "64 word \<Rightarrow> ('w, 'a, 'v) World \<Rightarrow> Result \<times> ('w, 'a, 'v) World" where
  "DeactivateNpad applet_resource_user_id w = (ResultSuccess, w)"

text \<open>\<^verbatim>\<open>NpadCommunicationMode\<close> is an enumeration declared outside the file: a type parameter.\<close>

definition SetNpadCommunicationMode ::
  "64 word \<Rightarrow> 'm \<Rightarrow> ('w, 'a, 'v) World \<Rightarrow> Result \<times> ('w, 'a, 'v) World" where
  "SetNpadCommunicationMode applet_resource_user_id communication_mode w = (ResultSuccess, w)"

text \<open>
  \<^verbatim>\<open>GetXpadIds\<close> (line 405): the array handed to \<^verbatim>\<open>ctx.WriteBuffer\<close>, then the two values
  pushed, the result and the array's size as a signed 64-bit integer.
\<close>

record GetXpadIds_response =
  write_buffer :: "32 word list"
  pushed_result :: Result
  pushed_s64 :: "64 word"

definition GetXpadIds ::
  "('w, 'a, 'v) World \<Rightarrow> GetXpadIds_response \<times> ('w, 'a, 'v) World" where
  "GetXpadIds w =
     (let basic_xpad_id = [0, 1, 2, 3]
      in (\<lparr>write_buffer = basic_xpad_id, pushed_result = ResultSuccess,
           pushed_s64 = of_nat (length basic_xpad_id)\<rparr>, w))"

text \<open>
  \<^verbatim>\<open>SendVibrationValues\<close> (line 1638). The two read buffers arrive as the spans
  \<open>vibration_device_handles\<close> and \<open>vibration_values\<close>; their lengths are \<^verbatim>\<open>handle_count\<close> and
  \<^verbatim>\<open>vibration_count\<close>. The loop runs from index \<open>i\<close> with the current \<open>result\<close>; reading a
  span past its end is undefined behaviour, \<open>None\<close>.
\<close>

function SendVibrationValues_loop ::
  "('w, 'a, 'v) Collaborators \<Rightarrow> 64 word \<Rightarrow> 'a VibrationDeviceHandle_scheme list \<Rightarrow> 'v list
    \<Rightarrow> nat \<Rightarrow> Result \<Rightarrow> ('w, 'a, 'v) World \<Rightarrow> (Result \<times> ('w, 'a, 'v) World) option" where
  "SendVibrationValues_loop env applet_resource_user_id vibration_device_handles
       vibration_values i result w =
     (if i < length vibration_device_handles then
        (if IsSuccess result then
           (if i < length vibration_values then
              (case delegate env
                      (SendVibrationValue applet_resource_user_id
                         (vibration_device_handles ! i) (vibration_values ! i))
                      (GetResourceManager env w) of
                 (result', w') \<Rightarrow>
                   SendVibrationValues_loop env applet_resource_user_id
                     vibration_device_handles vibration_values (Suc i) result' w')
            else None)
         else SendVibrationValues_loop env applet_resource_user_id
                vibration_device_handles vibration_values (Suc i) result w)
      else Some (result, w))"
  by pat_completeness auto
termination
  by (relation "measure (\<lambda>(env, aruid, hs, vs, i, result, w). length hs - i)") auto

declare SendVibrationValues_loop.simps [simp del]

definition SendVibrationValues ::
  "('w, 'a, 'v) Collaborators \<Rightarrow> 64 word \<Rightarrow> 'a VibrationDeviceHandle_scheme list \<Rightarrow> 'v list
    \<Rightarrow> ('w, 'a, 'v) World \<Rightarrow> (Result \<times> ('w, 'a, 'v) World) option" where
  "SendVibrationValues env applet_resource_user_id vibration_device_handles vibration_values w =
     (let result =
            (if length vibration_device_handles \<noteq> length vibration_values
             then ResultVibrationArraySizeMismatch env else ResultSuccess)
      in SendVibrationValues_loop env applet_resource_user_id
           vibration_device_handles vibration_values 0 result w)"

text \<open>
  What the specification says of the command when the two counts agree, in its own
  words: each pair goes to the resource manager in buffer order, forwarding stops at the
  first error, and that error (success when there is none) is the result.
\<close>

fun forward_pairs ::
  "('w, 'a, 'v) Collaborators \<Rightarrow> 64 word \<Rightarrow> ('a VibrationDeviceHandle_scheme \<times> 'v) list
    \<Rightarrow> ('w, 'a, 'v) World \<Rightarrow> Result \<times> ('w, 'a, 'v) World" where
  "forward_pairs env aruid [] w = (ResultSuccess, w)"
| "forward_pairs env aruid ((handle, value) # rest) w =
     (case delegate env (SendVibrationValue aruid handle value) (GetResourceManager env w) of
        (r, w') \<Rightarrow> if IsError r then (r, w') else forward_pairs env aruid rest w')"

subsection \<open>Concrete collaborators and states\<close>

text \<open>
  Collaborators for the closed instances below. The world outside counts the calls it
  has answered; every call is answered with \<open>answer c\<close>. The validator accepts device
  indices 0 and 1. The two error constants are nonzero.
\<close>

definition example_env ::
  "bool \<Rightarrow> ((unit, nat) Call \<Rightarrow> Result) \<Rightarrow> (nat, unit, nat) Collaborators" where
  "example_env managed answer =
     \<lparr>IsVibrationHandleValid = (\<lambda>handle. if device_index handle < 2 then 0 else 0xF4CA),
      ResultVibrationDeviceIndexOutOfRange = 0xF6CA,
      ResultVibrationArraySizeMismatch = 0x106CA,
      IsDeviceManaged = (\<lambda>x. managed),
      respond = (\<lambda>c x. (answer c, Suc x))\<rparr>"

definition example_world :: "(nat, unit, nat) World" where
  "example_world = \<lparr>ext = 0, calls = []\<rparr>"

definition example_handle :: "nat \<Rightarrow> VibrationDeviceHandle" where
  "example_handle n = \<lparr>npad_type = 3, npad_id = of_nat n, device_index = 0\<rparr>"

definition example_other :: VibrationDeviceHandle where
  "example_other = \<lparr>npad_type = 3, npad_id = 0, device_index = 1\<rparr>"

definition example_full :: "unit IActiveVibrationDeviceList" where
  "example_full =
     \<lparr>list_size = 0x100, vibration_device_list = map example_handle [0..<0x100]\<rparr>"

definition example_one :: "unit IActiveVibrationDeviceList" where
  "example_one =
     \<lparr>list_size = 1,
      vibration_device_list = (replicate 0x100 example_other)[0 := example_handle 0]\<rparr>"

definition example_invalid :: VibrationDeviceHandle where
  "example_invalid = \<lparr>npad_type = 3, npad_id = 0, device_index = 5\<rparr>"

definition example_padded :: "8 word \<Rightarrow> 8 word VibrationDeviceHandle_scheme" where
  "example_padded p = \<lparr>npad_type = 3, npad_id = 0, device_index = 0, \<dots> = p\<rparr>"

definition example_padded_one :: "8 word IActiveVibrationDeviceList" where
  "example_padded_one =
     \<lparr>list_size = 1,
      vibration_device_list = (replicate 0x100 (example_padded 0))[0 := example_padded 0xAA]\<rparr>"

definition example_handles :: "VibrationDeviceHandle list" where
  "example_handles = map example_handle [0..<0x100]"

text \<open>A resource manager that answers one call with an error and every other call with success.\<close>

definition example_answer :: "(unit, nat) Call \<Rightarrow> (unit, nat) Call \<Rightarrow> Result" where
  "example_answer failing c = (if c = failing then 1 else 0)"

section \<open>Properties of the activation list\<close>

lemma find_handle_from:
  "list_size s \<le> length (vibration_device_list s) \<Longrightarrow> i \<le> list_size s \<Longrightarrow>
   find_handle handle s i =
     Some (list_ex (same_handle handle) (drop i (active s)))"
proof (induction handle s i rule: find_handle.induct)
  case (1 handle s i)
  note unfold = find_handle.simps [of handle s i]
  show ?case
  proof (cases "i < list_size s")
    case False
    then have "find_handle handle s i = Some False"
      by (subst unfold) simp
    moreover from False "1.prems" have "drop i (active s) = []"
      by (simp add: active_def)
    ultimately show ?thesis by simp
  next
    case True
    with "1.prems" have len: "i < length (vibration_device_list s)" by simp
    have dr: "drop i (active s) = vibration_device_list s ! i # drop (Suc i) (active s)"
      using True len Cons_nth_drop_Suc [of i "take (list_size s) (vibration_device_list s)"]
      by (simp add: active_def)
    show ?thesis
    proof (cases "same_handle handle (vibration_device_list s ! i)")
      case True
      with \<open>i < list_size s\<close> len have "find_handle handle s i = Some True"
        by (subst unfold) simp
      with True dr show ?thesis by simp
    next
      case False
      with \<open>i < list_size s\<close> len have "find_handle handle s (Suc i) =
          Some (list_ex (same_handle handle) (drop (Suc i) (active s)))"
        using "1.IH" "1.prems" by simp
      moreover from False \<open>i < list_size s\<close> len
      have "find_handle handle s i = find_handle handle s (Suc i)"
        by (subst unfold) simp
      ultimately show ?thesis using False dr by simp
    qed
  qed
qed

lemma find_handle_present:
  "registry_ok s \<Longrightarrow> find_handle handle s 0 = Some (present handle s)"
  using find_handle_from [of s 0 handle] by (simp add: registry_ok_def present_def)

lemma IsSuccess_iff: "IsSuccess r = (\<not> IsError r)"
  by (simp add: IsSuccess_def IsError_def)

lemma IsError_ResultSuccess: "\<not> IsError ResultSuccess"
  by (simp add: IsError_def ResultSuccess_def)

lemma IsError_not_ResultSuccess: "IsError r \<Longrightarrow> r \<noteq> ResultSuccess"
  by (auto simp: IsError_def ResultSuccess_def)

lemma same_handle_iff:
  "same_handle handle stored =
     (npad_type stored = npad_type handle \<and> npad_id stored = npad_id handle \<and>
      device_index stored = device_index handle)"
  unfolding same_handle_def by (intro iffI conjI; elim conjE; rule sym; assumption)

lemma present_iff:
  "present handle s =
     (\<exists>stored \<in> set (active s).
        npad_type stored = npad_type handle \<and> npad_id stored = npad_id handle \<and>
        device_index stored = device_index handle)"
  by (simp add: present_def list_ex_iff same_handle_iff)

subsection \<open>The five ways through ActivateVibrationDeviceImpl\<close>

lemma activate_invalid:
  "IsError (IsVibrationHandleValid env handle) \<Longrightarrow>
   ActivateVibrationDeviceImpl env handle s w = Some (IsVibrationHandleValid env handle, s, w)"
  by (simp add: ActivateVibrationDeviceImpl_def)

lemma activate_present:
  "registry_ok s \<Longrightarrow> \<not> IsError (IsVibrationHandleValid env handle) \<Longrightarrow> present handle s \<Longrightarrow>
   ActivateVibrationDeviceImpl env handle s w = Some (ResultSuccess, s, w)"
  by (simp add: ActivateVibrationDeviceImpl_def find_handle_present)

lemma activate_full:
  "registry_ok s \<Longrightarrow> \<not> IsError (IsVibrationHandleValid env handle) \<Longrightarrow>
   \<not> present handle s \<Longrightarrow> list_size s = vibration_device_list_size \<Longrightarrow>
   ActivateVibrationDeviceImpl env handle s w =
     Some (ResultVibrationDeviceIndexOutOfRange env, s, w)"
  by (simp add: ActivateVibrationDeviceImpl_def find_handle_present)

lemma activate_delegate_error:
  "registry_ok s \<Longrightarrow> \<not> IsError (IsVibrationHandleValid env handle) \<Longrightarrow>
   \<not> present handle s \<Longrightarrow> list_size s \<noteq> vibration_device_list_size \<Longrightarrow>
   delegate env (VibrationDeviceActivate handle) w = (result, w') \<Longrightarrow> IsError result \<Longrightarrow>
   ActivateVibrationDeviceImpl env handle s w = Some (result, s, w')"
  by (simp add: ActivateVibrationDeviceImpl_def find_handle_present)

lemma activate_insert:
  "registry_ok s \<Longrightarrow> \<not> IsError (IsVibrationHandleValid env handle) \<Longrightarrow>
   \<not> present handle s \<Longrightarrow> list_size s \<noteq> vibration_device_list_size \<Longrightarrow>
   delegate env (VibrationDeviceActivate handle) w = (result, w') \<Longrightarrow> \<not> IsError result \<Longrightarrow>
   ActivateVibrationDeviceImpl env handle s w =
     Some (ResultSuccess,
       s\<lparr>vibration_device_list := (vibration_device_list s)[list_size s := handle],
         list_size := Suc (list_size s)\<rparr>,
       w')"
  by (simp add: ActivateVibrationDeviceImpl_def find_handle_present registry_ok_def)

text \<open>Every call is one of the five.\<close>

lemma activate_cases:
  assumes ok: "registry_ok s"
  obtains
    (invalid) "IsError (IsVibrationHandleValid env handle)"
      "ActivateVibrationDeviceImpl env handle s w = Some (IsVibrationHandleValid env handle, s, w)"
  | (duplicate) "\<not> IsError (IsVibrationHandleValid env handle)" "present handle s"
      "ActivateVibrationDeviceImpl env handle s w = Some (ResultSuccess, s, w)"
  | (full) "\<not> IsError (IsVibrationHandleValid env handle)" "\<not> present handle s"
      "list_size s = vibration_device_list_size"
      "ActivateVibrationDeviceImpl env handle s w =
         Some (ResultVibrationDeviceIndexOutOfRange env, s, w)"
  | (failed) result w' where
      "\<not> IsError (IsVibrationHandleValid env handle)" "\<not> present handle s"
      "list_size s < vibration_device_list_size"
      "delegate env (VibrationDeviceActivate handle) w = (result, w')" "IsError result"
      "ActivateVibrationDeviceImpl env handle s w = Some (result, s, w')"
  | (inserted) result w' where
      "\<not> IsError (IsVibrationHandleValid env handle)" "\<not> present handle s"
      "list_size s < vibration_device_list_size"
      "delegate env (VibrationDeviceActivate handle) w = (result, w')" "\<not> IsError result"
      "ActivateVibrationDeviceImpl env handle s w =
         Some (ResultSuccess,
           s\<lparr>vibration_device_list := (vibration_device_list s)[list_size s := handle],
             list_size := Suc (list_size s)\<rparr>,
           w')"
proof (cases "IsError (IsVibrationHandleValid env handle)")
  case True
  then show ?thesis using invalid activate_invalid by blast
next
  case valid: False
  show ?thesis
  proof (cases "present handle s")
    case True
    with valid ok show ?thesis using duplicate activate_present by blast
  next
    case absent: False
    show ?thesis
    proof (cases "list_size s = vibration_device_list_size")
      case True
      with valid absent ok show ?thesis using full activate_full by blast
    next
      case room: False
      with ok have lt: "list_size s < vibration_device_list_size"
        by (simp add: registry_ok_def)
      obtain result w' where d: "delegate env (VibrationDeviceActivate handle) w = (result, w')"
        by (cases "delegate env (VibrationDeviceActivate handle) w")
      show ?thesis
      proof (cases "IsError result")
        case True
        with valid absent room ok d lt show ?thesis
          using failed activate_delegate_error by blast
      next
        case False
        with valid absent room ok d lt show ?thesis
          using inserted activate_insert by blast
      qed
    qed
  qed
qed

lemma delegate_calls:
  "delegate env c w = (result, w') \<Longrightarrow>
   calls w' = calls w @ [c] \<and> result = fst (respond env c (ext w)) \<and>
   ext w' = snd (respond env c (ext w))"
  by (auto simp: delegate_def split: prod.splits)

lemma insert_ok:
  "registry_ok s \<Longrightarrow> list_size s < vibration_device_list_size \<Longrightarrow>
   registry_ok (s\<lparr>vibration_device_list := (vibration_device_list s)[list_size s := handle],
     list_size := Suc (list_size s)\<rparr>)"
  by (simp add: registry_ok_def)

lemma insert_active:
  "registry_ok s \<Longrightarrow> list_size s < vibration_device_list_size \<Longrightarrow>
   active (s\<lparr>vibration_device_list := (vibration_device_list s)[list_size s := handle],
     list_size := Suc (list_size s)\<rparr>) = active s @ [handle]"
  by (simp add: registry_ok_def active_def take_Suc_conv_app_nth)

lemma same_handle_key: "same_handle a b = (handle_key a = handle_key b)"
  by (auto simp: same_handle_def handle_key_def)

lemma present_key: "present handle s = (handle_key handle \<in> handle_key ` set (active s))"
  by (auto simp: present_def list_ex_iff same_handle_key)

lemma init_ok: "registry_ok (IActiveVibrationDeviceList_init h0)"
  by (simp add: registry_ok_def IActiveVibrationDeviceList_init_def)

lemma init_active: "active (IActiveVibrationDeviceList_init h0) = []"
  by (simp add: active_def IActiveVibrationDeviceList_init_def)

lemma activate_preserves_ok:
  assumes "registry_ok s" and "ActivateVibrationDeviceImpl env handle s w = Some (r, s', w')"
  shows "registry_ok s'"
  using assms(1)
proof (cases rule: activate_cases [where env = env and handle = handle and w = w])
  case (inserted result w'')
  with assms show ?thesis using insert_ok [of s handle] by simp
qed (use assms in auto)

lemma activate_all_fresh:
  "registry_ok s \<Longrightarrow>
   \<forall>h \<in> set hs. \<not> IsError (IsVibrationHandleValid env h) \<Longrightarrow>
   \<forall>h \<in> set hs. \<forall>x. \<not> IsError (fst (respond env (VibrationDeviceActivate h) x)) \<Longrightarrow>
   distinct (map handle_key hs) \<Longrightarrow>
   \<forall>h \<in> set hs. \<not> present h s \<Longrightarrow>
   list_size s + length hs \<le> vibration_device_list_size \<Longrightarrow>
   \<exists>s' w'. activate_all env hs s w = Some (replicate (length hs) ResultSuccess, s', w') \<and>
     registry_ok s' \<and> list_size s' = list_size s + length hs \<and>
     active s' = active s @ hs \<and>
     calls w' = calls w @ map VibrationDeviceActivate hs"
proof (induction hs arbitrary: s w)
  case Nil
  then show ?case by simp
next
  case (Cons h hs)
  let ?s1 = "s\<lparr>vibration_device_list := (vibration_device_list s)[list_size s := h],
                list_size := Suc (list_size s)\<rparr>"
  obtain result w1 where d: "delegate env (VibrationDeviceActivate h) w = (result, w1)"
    by (cases "delegate env (VibrationDeviceActivate h) w")
  from Cons.prems have lt: "list_size s < vibration_device_list_size" by simp
  from d Cons.prems(3) have ok_r: "\<not> IsError result"
    using delegate_calls [OF d] by simp
  have step: "ActivateVibrationDeviceImpl env h s w = Some (ResultSuccess, ?s1, w1)"
    using Cons.prems lt d ok_r by (intro activate_insert) auto
  have ok1: "registry_ok ?s1" using Cons.prems(1) lt by (rule insert_ok)
  have act1: "active ?s1 = active s @ [h]" using Cons.prems(1) lt by (rule insert_active)
  have fresh1: "\<forall>g \<in> set hs. \<not> present g ?s1"
  proof
    fix g assume g: "g \<in> set hs"
    with Cons.prems(4) have "handle_key g \<noteq> handle_key h" by (metis distinct.simps(2) image_eqI list.simps(9) set_map)
    with g Cons.prems(5) show "\<not> present g ?s1" by (simp add: present_key act1)
  qed
  have size1: "list_size ?s1 + length hs \<le> vibration_device_list_size"
    using Cons.prems(6) by simp
  from Cons.IH [OF ok1 _ _ _ fresh1 size1, of w1] Cons.prems(2,3,4)
  obtain s' w' where rest:
    "activate_all env hs ?s1 w1 = Some (replicate (length hs) ResultSuccess, s', w')"
    "registry_ok s'" "list_size s' = list_size ?s1 + length hs"
    "active s' = active ?s1 @ hs" "calls w' = calls w1 @ map VibrationDeviceActivate hs"
    by auto
  from step rest act1 delegate_calls [OF d] show ?case by simp
qed

subsection \<open>The concrete states\<close>

lemma example_full_ok: "registry_ok example_full"
  by (simp add: registry_ok_def example_full_def vibration_device_list_size_def)

lemma example_full_active: "active example_full = map example_handle [0..<0x100]"
  by (simp add: active_def example_full_def)

lemma example_handle_present: "n < 0x100 \<Longrightarrow> present (example_handle n) example_full"
  unfolding present_iff example_full_active by (rule bexI [of _ "example_handle n"]) auto

lemma example_valid:
  "IsVibrationHandleValid (example_env managed answer) (example_handle n) = 0"
  "IsVibrationHandleValid (example_env managed answer) example_other = 0"
  by (simp_all add: example_env_def example_handle_def example_other_def)

lemma example_constants:
  "ResultVibrationDeviceIndexOutOfRange (example_env managed answer) = 0xF6CA"
  "ResultVibrationArraySizeMismatch (example_env managed answer) = 0x106CA"
  "IsDeviceManaged (example_env managed answer) x = managed"
  by (simp_all add: example_env_def)

lemma example_other_absent: "\<not> present example_other example_full"
  by (auto simp: present_iff example_full_active example_handle_def example_other_def)

lemma example_init_absent: "\<not> present handle (IActiveVibrationDeviceList_init h0)"
  by (simp add: present_key init_active)

lemma example_delegate:
  "delegate (example_env managed answer) c w = (answer c, \<lparr>ext = Suc (ext w), calls = calls w @ [c]\<rparr>)"
  by (simp add: delegate_def example_env_def)

lemma example_one_ok: "registry_ok example_one"
  by (simp add: registry_ok_def example_one_def vibration_device_list_size_def)

lemma example_one_present: "present (example_handle 0) example_one"
  by (simp add: present_key active_def example_one_def take_Suc_conv_app_nth)

lemma example_handles_distinct:
  "distinct (map handle_key (map example_handle [0..<0x100] @ [example_other]))"
proof -
  have inj: "inj_on (\<lambda>n. handle_key (example_handle n)) {0..<0x100}"
  proof (rule inj_onI)
    fix m n :: nat
    assume "m \<in> {0..<0x100}" "n \<in> {0..<0x100}"
      and "handle_key (example_handle m) = handle_key (example_handle n)"
    then have "(of_nat m :: 8 word) = of_nat n" "m < 2 ^ 8" "n < 2 ^ 8"
      by (simp_all add: handle_key_def example_handle_def)
    then show "m = n"
      by (simp add: word_of_nat_eq_iff take_bit_nat_eq_self)
  qed
  have "distinct (map (\<lambda>n. handle_key (example_handle n)) [0..<0x100])"
    using inj by (simp add: distinct_map)
  moreover have "handle_key example_other \<notin> (\<lambda>n. handle_key (example_handle n)) ` {0..<0x100}"
    by (auto simp: handle_key_def example_handle_def example_other_def)
  ultimately show ?thesis by (simp add: comp_def)
qed

lemma example_handles_length: "length example_handles = vibration_device_list_size"
  by (simp add: example_handles_def vibration_device_list_size_def)

lemma example_handles_valid:
  "list_all (\<lambda>h. IsSuccess (IsVibrationHandleValid (example_env managed answer) h))
     (example_handles @ [example_other])"
  by (simp add: list_all_iff example_handles_def example_valid IsSuccess_def image_iff)

lemma activate_all_failing:
  "registry_ok s \<Longrightarrow> list_size s = 0 \<Longrightarrow>
   list_all (\<lambda>h. IsSuccess (IsVibrationHandleValid (example_env managed (\<lambda>c. 1)) h)) hs \<Longrightarrow>
   activate_all (example_env managed (\<lambda>c. 1)) hs s w
     = Some (replicate (length hs) 1, s,
         \<lparr>ext = ext w + length hs, calls = calls w @ map VibrationDeviceActivate hs\<rparr>)"
proof (induction hs arbitrary: w)
  case Nil
  then show ?case by simp
next
  case (Cons h hs)
  have absent: "\<not> present h s" using Cons.prems(2) by (simp add: present_key active_def)
  have room: "list_size s \<noteq> vibration_device_list_size"
    using Cons.prems(2) by (simp add: vibration_device_list_size_def)
  have "ActivateVibrationDeviceImpl (example_env managed (\<lambda>c. 1)) h s w
      = Some (1, s, \<lparr>ext = Suc (ext w), calls = calls w @ [VibrationDeviceActivate h]\<rparr>)"
    using Cons.prems(3)
    by (intro activate_delegate_error [OF Cons.prems(1) _ absent room])
      (simp_all add: example_delegate IsError_def IsSuccess_def)
  with Cons.IH [OF Cons.prems(1,2)] Cons.prems(3) show ?case by simp
qed

section \<open>The claims about the activation list\<close>

text \<open>
  C1 (activation is idempotent), as the code has it. Whenever
  \<^verbatim>\<open>ActivateVibrationDeviceImpl\<close> returns success for a handle, calling it again at once with
  the same handle returns success, leaves the list as it is and makes no call to the
  resource manager. For a valid handle that is not in the list yet, while the list has a
  free slot and the device's \<^verbatim>\<open>Activate\<close> succeeds, both calls return success, the first
  makes the one delegate call, and \<^verbatim>\<open>list_size\<close> grows by exactly 1 over the two calls.
\<close>

theorem activation_idempotent:
  assumes "registry_ok s"
  shows "(\<forall>s1 w1. ActivateVibrationDeviceImpl env handle s w = Some (ResultSuccess, s1, w1) \<longrightarrow>
            ActivateVibrationDeviceImpl env handle s1 w1 = Some (ResultSuccess, s1, w1)) \<and>
         (IsSuccess (IsVibrationHandleValid env handle) \<and> \<not> present handle s \<and>
          list_size s < vibration_device_list_size \<and>
          IsSuccess (fst (respond env (VibrationDeviceActivate handle) (ext w))) \<longrightarrow>
            (\<exists>s1 w1.
               ActivateVibrationDeviceImpl env handle s w = Some (ResultSuccess, s1, w1) \<and>
               list_size s1 = list_size s + 1 \<and>
               calls w1 = calls w @ [VibrationDeviceActivate handle] \<and>
               ActivateVibrationDeviceImpl env handle s1 w1 = Some (ResultSuccess, s1, w1)))"
  using assms
proof (cases rule: activate_cases [where env = env and handle = handle and w = w])
  case invalid
  then show ?thesis by (auto simp: IsSuccess_iff dest: IsError_not_ResultSuccess)
next
  case duplicate
  then show ?thesis by simp
next
  case full
  then show ?thesis by auto
next
  case (failed result w')
  with delegate_calls [of env "VibrationDeviceActivate handle" w result w']
  show ?thesis by (auto simp: IsSuccess_iff dest: IsError_not_ResultSuccess)
next
  case (inserted result w')
  let ?s1 = "s\<lparr>vibration_device_list := (vibration_device_list s)[list_size s := handle],
                list_size := Suc (list_size s)\<rparr>"
  have ok1: "registry_ok ?s1" using assms inserted(3) by (rule insert_ok)
  have "active ?s1 = active s @ [handle]" using assms inserted(3) by (rule insert_active)
  then have "present handle ?s1" by (simp add: present_key)
  with ok1 inserted(1)
  have again: "ActivateVibrationDeviceImpl env handle ?s1 w' = Some (ResultSuccess, ?s1, w')"
    by (rule activate_present)
  with inserted delegate_calls [of env "VibrationDeviceActivate handle" w result w']
  show ?thesis by simp
qed

text \<open>The theorem at a fresh list, a valid handle and a device that activates.\<close>

theorem activation_idempotent_witness:
  "registry_ok (IActiveVibrationDeviceList_init example_other) \<and>
   IsSuccess (IsVibrationHandleValid (example_env False (\<lambda>c. 0)) (example_handle 0)) \<and>
   \<not> present (example_handle 0) (IActiveVibrationDeviceList_init example_other) \<and>
   list_size (IActiveVibrationDeviceList_init example_other) < vibration_device_list_size \<and>
   IsSuccess (fst (respond (example_env False (\<lambda>c. 0))
     (VibrationDeviceActivate (example_handle 0)) (ext example_world))) \<and>
   (\<exists>s1 w1.
      ActivateVibrationDeviceImpl (example_env False (\<lambda>c. 0)) (example_handle 0)
        (IActiveVibrationDeviceList_init example_other) example_world
        = Some (ResultSuccess, s1, w1) \<and>
      list_size s1 = 1 \<and>
      calls w1 = [VibrationDeviceActivate (example_handle 0)] \<and>
      ActivateVibrationDeviceImpl (example_env False (\<lambda>c. 0)) (example_handle 0) s1 w1
        = Some (ResultSuccess, s1, w1))"
proof -
  let ?env = "example_env False (\<lambda>c. 0) :: (nat, unit, nat) Collaborators"
  let ?s = "IActiveVibrationDeviceList_init example_other"
  have ok: "registry_ok ?s" by (rule init_ok)
  have v: "IsSuccess (IsVibrationHandleValid ?env (example_handle 0))"
    by (simp add: example_valid IsSuccess_def)
  have a: "\<not> present (example_handle 0) ?s" by (rule example_init_absent)
  have r: "list_size ?s < vibration_device_list_size"
    by (simp add: IActiveVibrationDeviceList_init_def vibration_device_list_size_def)
  have d: "IsSuccess (fst (respond ?env (VibrationDeviceActivate (example_handle 0))
      (ext example_world)))"
    by (simp add: example_env_def IsSuccess_def)
  have sz: "list_size ?s = 0" "calls example_world = []"
    by (simp_all add: IActiveVibrationDeviceList_init_def example_world_def)
  from activation_idempotent [OF ok, of ?env "example_handle 0" example_world] v a r d
  obtain s1 w1 where
    "ActivateVibrationDeviceImpl ?env (example_handle 0) ?s example_world
       = Some (ResultSuccess, s1, w1)"
    "list_size s1 = list_size ?s + 1"
    "calls w1 = calls example_world @ [VibrationDeviceActivate (example_handle 0)]"
    "ActivateVibrationDeviceImpl ?env (example_handle 0) s1 w1 = Some (ResultSuccess, s1, w1)"
    by blast
  with ok v a r d sz show ?thesis by simp
qed

text \<open>
  Without those conditions the two calls need not both succeed, nor the size grow by 1:
  a valid handle whose device fails to activate gets the device's error; a valid new
  handle gets \<^verbatim>\<open>ResultVibrationDeviceIndexOutOfRange\<close> from a full list; and for a handle
  that is in the list already (here a list of size 1) the size does not grow at all.
\<close>

theorem activation_idempotent_counterexample:
  "IsSuccess (IsVibrationHandleValid (example_env False (\<lambda>c. 1)) (example_handle 0)) \<and>
   ActivateVibrationDeviceImpl (example_env False (\<lambda>c. 1)) (example_handle 0)
       (IActiveVibrationDeviceList_init example_other) example_world
     = Some (1, IActiveVibrationDeviceList_init example_other,
         \<lparr>ext = 1, calls = [VibrationDeviceActivate (example_handle 0)]\<rparr>) \<and>
   \<not> IsSuccess 1 \<and>
   IsSuccess (IsVibrationHandleValid (example_env False (\<lambda>c. 0)) example_other) \<and>
   ActivateVibrationDeviceImpl (example_env False (\<lambda>c. 0)) example_other
       example_full example_world
     = Some (0xF6CA, example_full, example_world) \<and>
   \<not> IsSuccess 0xF6CA \<and>
   IsSuccess (IsVibrationHandleValid (example_env False (\<lambda>c. 0)) (example_handle 0)) \<and>
   ActivateVibrationDeviceImpl (example_env False (\<lambda>c. 0)) (example_handle 0)
       example_one example_world
     = Some (ResultSuccess, example_one, example_world) \<and>
   list_size example_one = 1"
proof -
  let ?s = "IActiveVibrationDeviceList_init example_other"
  have room: "list_size ?s \<noteq> vibration_device_list_size"
    by (simp add: IActiveVibrationDeviceList_init_def vibration_device_list_size_def)
  have "ActivateVibrationDeviceImpl (example_env False (\<lambda>c. 1)) (example_handle 0)
       ?s example_world
     = Some (1, ?s, \<lparr>ext = 1, calls = [VibrationDeviceActivate (example_handle 0)]\<rparr>)"
    by (rule activate_delegate_error [OF init_ok _ example_init_absent room])
      (simp_all add: example_valid example_delegate IsError_def example_world_def)
  moreover have "ActivateVibrationDeviceImpl (example_env False (\<lambda>c. 0)) example_other
       example_full example_world
     = Some (0xF6CA, example_full, example_world)"
    using activate_full [OF example_full_ok _ example_other_absent,
        of "example_env False (\<lambda>c. 0)" example_world]
    by (simp add: example_valid example_constants IsError_def example_full_def
        vibration_device_list_size_def)
  moreover have "ActivateVibrationDeviceImpl (example_env False (\<lambda>c. 0)) (example_handle 0)
       example_one example_world
     = Some (ResultSuccess, example_one, example_world)"
    by (rule activate_present [OF example_one_ok _ example_one_present])
      (simp add: example_valid IsError_def)
  ultimately show ?thesis
    by (simp add: example_valid IsSuccess_def example_one_def)
qed

text \<open>
  C2 (capacity bound), as the code has it. On a newly constructed list, activating
  \<^verbatim>\<open>0x100\<close> valid handles with pairwise distinct keys, the device of each of which
  activates, succeeds every time and leaves \<^verbatim>\<open>list_size\<close> at \<^verbatim>\<open>0x100\<close>; activating one more
  valid handle with yet another key then returns \<^verbatim>\<open>ResultVibrationDeviceIndexOutOfRange\<close>
  and changes nothing. The constructed list is well-formed, and every call on a
  well-formed list returns and leaves a well-formed list: \<^verbatim>\<open>list_size\<close> never exceeds
  \<^verbatim>\<open>0x100\<close>.
\<close>

theorem capacity_bound:
  "(length hs = vibration_device_list_size \<and>
    distinct (map handle_key (hs @ [extra])) \<and>
    (\<forall>h \<in> set (hs @ [extra]). IsSuccess (IsVibrationHandleValid env h)) \<and>
    (\<forall>h \<in> set hs. \<forall>x. IsSuccess (fst (respond env (VibrationDeviceActivate h) x))) \<longrightarrow>
    (\<exists>s' w'.
       activate_all env hs (IActiveVibrationDeviceList_init h0) w
         = Some (replicate vibration_device_list_size ResultSuccess, s', w') \<and>
       list_size s' = vibration_device_list_size \<and>
       ActivateVibrationDeviceImpl env extra s' w'
         = Some (ResultVibrationDeviceIndexOutOfRange env, s', w'))) \<and>
   registry_ok (IActiveVibrationDeviceList_init h0) \<and>
   (registry_ok s \<longrightarrow>
    (\<exists>r s' w'.
       ActivateVibrationDeviceImpl env handle s w1 = Some (r, s', w') \<and>
       registry_ok s' \<and> list_size s' \<le> vibration_device_list_size))"
proof (intro conjI impI)
  assume a: "length hs = vibration_device_list_size \<and>
    distinct (map handle_key (hs @ [extra])) \<and>
    (\<forall>h \<in> set (hs @ [extra]). IsSuccess (IsVibrationHandleValid env h)) \<and>
    (\<forall>h \<in> set hs. \<forall>x. IsSuccess (fst (respond env (VibrationDeviceActivate h) x)))"
  let ?s0 = "IActiveVibrationDeviceList_init h0"
  have size0: "list_size ?s0 + length hs \<le> vibration_device_list_size"
    using a by (simp add: IActiveVibrationDeviceList_init_def)
  have fresh: "\<forall>h \<in> set hs. \<not> present h ?s0"
    by (simp add: present_key init_active)
  from a have "\<forall>h \<in> set hs. \<not> IsError (IsVibrationHandleValid env h)"
    "\<forall>h \<in> set hs. \<forall>x. \<not> IsError (fst (respond env (VibrationDeviceActivate h) x))"
    "distinct (map handle_key hs)"
    by (simp_all add: IsSuccess_iff)
  from activate_all_fresh [OF init_ok this fresh size0, of w]
  obtain s' w' where run:
    "activate_all env hs ?s0 w = Some (replicate (length hs) ResultSuccess, s', w')"
    "registry_ok s'" "list_size s' = list_size ?s0 + length hs" "active s' = active ?s0 @ hs"
    by blast
  from run(3) a have full: "list_size s' = vibration_device_list_size"
    by (simp add: IActiveVibrationDeviceList_init_def)
  from a have "handle_key extra \<notin> handle_key ` set hs" by auto
  with run(4) have absent: "\<not> present extra s'"
    by (simp add: present_key init_active)
  from a have valid: "\<not> IsError (IsVibrationHandleValid env extra)"
    by (simp add: IsSuccess_iff)
  from activate_full [OF run(2) valid absent full, of w'] run(1) full a
  show "\<exists>s' w'.
       activate_all env hs ?s0 w
         = Some (replicate vibration_device_list_size ResultSuccess, s', w') \<and>
       list_size s' = vibration_device_list_size \<and>
       ActivateVibrationDeviceImpl env extra s' w'
         = Some (ResultVibrationDeviceIndexOutOfRange env, s', w')"
    by auto
next
  show "registry_ok (IActiveVibrationDeviceList_init h0)" by (rule init_ok)
next
  assume ok: "registry_ok s"
  then obtain r s' w' where run: "ActivateVibrationDeviceImpl env handle s w1 = Some (r, s', w')"
    by (cases rule: activate_cases [where env = env and handle = handle and w = w1]) auto
  with ok have "registry_ok s'" by (rule activate_preserves_ok)
  with run show "\<exists>r s' w'.
       ActivateVibrationDeviceImpl env handle s w1 = Some (r, s', w') \<and>
       registry_ok s' \<and> list_size s' \<le> vibration_device_list_size"
    by (auto simp: registry_ok_def)
qed

text \<open>The theorem at 256 handles that differ in \<^verbatim>\<open>npad_id\<close>, and a 257th that differs in \<^verbatim>\<open>device_index\<close>.\<close>

theorem capacity_bound_witness:
  "length example_handles = vibration_device_list_size \<and>
   distinct (map handle_key (example_handles @ [example_other])) \<and>
   list_all (\<lambda>h. IsSuccess (IsVibrationHandleValid (example_env False (\<lambda>c. 0)) h))
     (example_handles @ [example_other]) \<and>
   list_all (\<lambda>h. \<forall>x. IsSuccess (fst (respond (example_env False (\<lambda>c. 0))
     (VibrationDeviceActivate h) x))) example_handles \<and>
   (\<exists>s' w'.
      activate_all (example_env False (\<lambda>c. 0)) example_handles
          (IActiveVibrationDeviceList_init example_other) example_world
        = Some (replicate vibration_device_list_size ResultSuccess, s', w') \<and>
      list_size s' = 0x100 \<and>
      ActivateVibrationDeviceImpl (example_env False (\<lambda>c. 0)) example_other s' w'
        = Some (0xF6CA, s', w')) \<and>
   registry_ok example_full \<and>
   (\<exists>r s' w'.
      ActivateVibrationDeviceImpl (example_env False (\<lambda>c. 0)) example_other
          example_full example_world = Some (r, s', w') \<and>
      registry_ok s' \<and> list_size s' \<le> vibration_device_list_size)"
proof -
  let ?env = "example_env False (\<lambda>c. 0) :: (nat, unit, nat) Collaborators"
  have len: "length example_handles = vibration_device_list_size"
    by (rule example_handles_length)
  have dist: "distinct (map handle_key (example_handles @ [example_other]))"
    using example_handles_distinct by (simp add: example_handles_def)
  have valid: "list_all (\<lambda>h. IsSuccess (IsVibrationHandleValid ?env h))
      (example_handles @ [example_other])"
    by (rule example_handles_valid)
  have deleg: "list_all (\<lambda>h. \<forall>x. IsSuccess (fst (respond ?env (VibrationDeviceActivate h) x)))
      example_handles"
    by (simp add: list_all_iff example_env_def IsSuccess_def)
  note inst = capacity_bound [of example_handles example_other ?env example_other example_world
      example_full example_other example_world]
  from inst len dist valid deleg have run: "\<exists>s' w'.
      activate_all ?env example_handles (IActiveVibrationDeviceList_init example_other)
          example_world
        = Some (replicate vibration_device_list_size ResultSuccess, s', w') \<and>
      list_size s' = vibration_device_list_size \<and>
      ActivateVibrationDeviceImpl ?env example_other s' w'
        = Some (ResultVibrationDeviceIndexOutOfRange ?env, s', w')"
    by (simp add: list_all_iff)
  from inst example_full_ok have inv: "\<exists>r s' w'.
      ActivateVibrationDeviceImpl ?env example_other example_full example_world
        = Some (r, s', w') \<and>
      registry_ok s' \<and> list_size s' \<le> vibration_device_list_size"
    by simp
  from run have run': "\<exists>s' w'.
      activate_all ?env example_handles (IActiveVibrationDeviceList_init example_other)
          example_world
        = Some (replicate vibration_device_list_size ResultSuccess, s', w') \<and>
      list_size s' = 0x100 \<and>
      ActivateVibrationDeviceImpl ?env example_other s' w' = Some (0xF6CA, s', w')"
    by (simp add: example_constants vibration_device_list_size_def)
  from len dist valid deleg run' example_full_ok inv show ?thesis by blast
qed

text \<open>
  When the devices do not activate, activating 256 distinct valid handles does not
  succeed: every call returns the device's error and \<^verbatim>\<open>list_size\<close> stays 0.
\<close>

theorem capacity_bound_counterexample:
  "length example_handles = vibration_device_list_size \<and>
   distinct (map handle_key example_handles) \<and>
   list_all (\<lambda>h. IsSuccess (IsVibrationHandleValid (example_env False (\<lambda>c. 1)) h))
     example_handles \<and>
   activate_all (example_env False (\<lambda>c. 1)) example_handles
       (IActiveVibrationDeviceList_init example_other) example_world
     = Some (replicate 0x100 1, IActiveVibrationDeviceList_init example_other,
         \<lparr>ext = 0x100, calls = map VibrationDeviceActivate example_handles\<rparr>) \<and>
   \<not> IsSuccess 1 \<and>
   list_size (IActiveVibrationDeviceList_init example_other) = 0"
proof -
  have dist: "distinct (map handle_key example_handles)"
    using example_handles_distinct by (simp add: example_handles_def)
  have valid: "list_all (\<lambda>h. IsSuccess (IsVibrationHandleValid (example_env False (\<lambda>c. 1)) h))
      example_handles"
    using example_handles_valid [of False "\<lambda>c. 1"] by simp
  have zero: "list_size (IActiveVibrationDeviceList_init example_other) = 0"
    by (simp add: IActiveVibrationDeviceList_init_def)
  from activate_all_failing [OF init_ok zero valid, of example_world]
  have "activate_all (example_env False (\<lambda>c. 1)) example_handles
       (IActiveVibrationDeviceList_init example_other) example_world
     = Some (replicate 0x100 1, IActiveVibrationDeviceList_init example_other,
         \<lparr>ext = 0x100, calls = map VibrationDeviceActivate example_handles\<rparr>)"
    by (simp add: example_world_def example_handles_def)
  with example_handles_length dist valid zero show ?thesis
    by (simp add: IsSuccess_def)
qed

text \<open>
  C3 (the duplicate check precedes the capacity check). For every valid handle that is
  already in the list, \<^verbatim>\<open>ActivateVibrationDeviceImpl\<close> returns success, with the list and
  the world outside unchanged, whatever \<^verbatim>\<open>list_size\<close> is: also when the list is full.
\<close>

theorem dedup_precedes_capacity:
  assumes "registry_ok s"
    and "IsSuccess (IsVibrationHandleValid env handle)"
    and "present handle s"
  shows "ActivateVibrationDeviceImpl env handle s w = Some (ResultSuccess, s, w)"
  using assms by (simp add: activate_present IsSuccess_iff)

text \<open>The theorem at a full list of 256 distinct handles and one of its handles.\<close>

theorem dedup_precedes_capacity_witness:
  "registry_ok example_full \<and>
   list_size example_full = vibration_device_list_size \<and>
   IsSuccess (IsVibrationHandleValid (example_env False (\<lambda>c. 0)) (example_handle 7)) \<and>
   present (example_handle 7) example_full \<and>
   ActivateVibrationDeviceImpl (example_env False (\<lambda>c. 0)) (example_handle 7)
       example_full example_world
     = Some (ResultSuccess, example_full, example_world)"
proof -
  have v: "IsSuccess (IsVibrationHandleValid (example_env False (\<lambda>c. 0)) (example_handle 7))"
    by (simp add: example_env_def example_handle_def IsSuccess_def)
  have p: "present (example_handle 7) example_full"
    by (rule example_handle_present) simp
  have sz: "list_size example_full = vibration_device_list_size"
    by (simp add: example_full_def vibration_device_list_size_def)
  from dedup_precedes_capacity [OF example_full_ok v p, of example_world] example_full_ok v p sz
  show ?thesis by simp
qed

text \<open>
  C4 (activation is atomic on error). A call on a well-formed list always returns. When
  its result is an error, the list is unchanged, and the error is the validator's (no
  delegate call), \<^verbatim>\<open>ResultVibrationDeviceIndexOutOfRange\<close> (no delegate call) or the result
  of the one delegate call, after which the handle is not in the list. When the
  validator rejects the handle, its result is returned and nothing at all has changed.
\<close>

theorem activation_atomic_on_error:
  assumes "registry_ok s"
  shows "\<exists>r s' w'.
     ActivateVibrationDeviceImpl env handle s w = Some (r, s', w') \<and>
     (IsError r \<longrightarrow>
        s' = s \<and>
        ((r = IsVibrationHandleValid env handle \<and> w' = w) \<or>
         (r = ResultVibrationDeviceIndexOutOfRange env \<and> w' = w) \<or>
         ((r, w') = delegate env (VibrationDeviceActivate handle) w \<and>
          \<not> present handle s'))) \<and>
     (IsError (IsVibrationHandleValid env handle) \<longrightarrow>
        r = IsVibrationHandleValid env handle \<and> s' = s \<and> w' = w)"
  using assms
proof (cases rule: activate_cases [where env = env and handle = handle and w = w])
  case invalid
  then show ?thesis by simp
next
  case duplicate
  then show ?thesis by (simp add: IsError_ResultSuccess)
next
  case full
  then show ?thesis by simp
next
  case (failed result w')
  then show ?thesis by simp
next
  case (inserted result w')
  then show ?thesis by (simp add: IsError_ResultSuccess)
qed

text \<open>The theorem at a device that fails to activate, and at a handle the validator rejects.\<close>

theorem activation_atomic_on_error_witness:
  "registry_ok (IActiveVibrationDeviceList_init example_other) \<and>
   (\<exists>r s' w'.
      ActivateVibrationDeviceImpl (example_env False (\<lambda>c. 1)) (example_handle 0)
        (IActiveVibrationDeviceList_init example_other) example_world = Some (r, s', w') \<and>
      IsError r \<and> s' = IActiveVibrationDeviceList_init example_other \<and>
      (r, w') = delegate (example_env False (\<lambda>c. 1))
         (VibrationDeviceActivate (example_handle 0)) example_world \<and>
      \<not> present (example_handle 0) s') \<and>
   IsError (IsVibrationHandleValid (example_env False (\<lambda>c. 0)) example_invalid) \<and>
   ActivateVibrationDeviceImpl (example_env False (\<lambda>c. 0)) example_invalid
       (IActiveVibrationDeviceList_init example_other) example_world
     = Some (0xF4CA, IActiveVibrationDeviceList_init example_other, example_world)"
proof -
  let ?s = "IActiveVibrationDeviceList_init example_other"
  let ?fail = "example_env False (\<lambda>c. 1) :: (nat, unit, nat) Collaborators"
  let ?env = "example_env False (\<lambda>c. 0) :: (nat, unit, nat) Collaborators"
  have inv: "IsVibrationHandleValid ?env example_invalid = 0xF4CA"
    by (simp add: example_env_def example_invalid_def)
  then have err: "IsError (IsVibrationHandleValid ?env example_invalid)"
    by (simp add: IsError_def)
  from activation_atomic_on_error [OF init_ok, of ?env example_invalid example_other example_world]
    err inv
  have second: "ActivateVibrationDeviceImpl ?env example_invalid ?s example_world
      = Some (0xF4CA, ?s, example_world)"
    by auto
  have d: "delegate ?fail (VibrationDeviceActivate (example_handle 0)) example_world
      = (1, \<lparr>ext = 1, calls = [VibrationDeviceActivate (example_handle 0)]\<rparr>)"
    by (simp add: example_delegate example_world_def)
  from activation_atomic_on_error [OF init_ok, of ?fail "example_handle 0" example_other example_world]
  obtain r s' w' where
    run: "ActivateVibrationDeviceImpl ?fail (example_handle 0) ?s example_world = Some (r, s', w')"
    and atomic: "IsError r \<longrightarrow> s' = ?s \<and>
        ((r = IsVibrationHandleValid ?fail (example_handle 0) \<and> w' = example_world) \<or>
         (r = ResultVibrationDeviceIndexOutOfRange ?fail \<and> w' = example_world) \<or>
         ((r, w') = delegate ?fail (VibrationDeviceActivate (example_handle 0)) example_world \<and>
          \<not> present (example_handle 0) s'))"
    by blast
  have room: "list_size ?s \<noteq> vibration_device_list_size"
    by (simp add: IActiveVibrationDeviceList_init_def vibration_device_list_size_def)
  have "ActivateVibrationDeviceImpl ?fail (example_handle 0) ?s example_world
      = Some (1, ?s, \<lparr>ext = 1, calls = [VibrationDeviceActivate (example_handle 0)]\<rparr>)"
    by (rule activate_delegate_error [OF init_ok _ example_init_absent room d])
      (simp_all add: example_valid IsError_def)
  with run have r: "r = 1" "s' = ?s"
    "w' = \<lparr>ext = 1, calls = [VibrationDeviceActivate (example_handle 0)]\<rparr>" by simp_all
  then have "IsError r" by (simp add: IsError_def)
  with atomic r d example_init_absent [of "example_handle 0" example_other]
  have "(r, w') = delegate ?fail (VibrationDeviceActivate (example_handle 0)) example_world \<and>
      \<not> present (example_handle 0) s'"
    by simp
  with run \<open>IsError r\<close> r(2) init_ok [of example_other] err second show ?thesis
    by blast
qed

text \<open>
  C8 (handle identity is equality of the three members). The comparison of the scan
  holds of two handles exactly when they have the same \<^verbatim>\<open>npad_type\<close>, \<^verbatim>\<open>npad_id\<close> and
  \<^verbatim>\<open>device_index\<close>, and the scan of the list finds an incoming handle exactly when some
  stored handle has the same \<^verbatim>\<open>npad_type\<close>, \<^verbatim>\<open>npad_id\<close>
  and \<^verbatim>\<open>device_index\<close>; nothing else of either handle plays a part.
\<close>

theorem handle_identity_is_field_equality:
  assumes "registry_ok s"
  shows "same_handle h2 h1 =
       (npad_type h1 = npad_type h2 \<and> npad_id h1 = npad_id h2 \<and>
        device_index h1 = device_index h2) \<and>
     find_handle h2 s 0 =
       Some (\<exists>h1 \<in> set (active s).
          npad_type h1 = npad_type h2 \<and> npad_id h1 = npad_id h2 \<and>
          device_index h1 = device_index h2)"
  using assms by (simp add: find_handle_present present_iff same_handle_iff)

text \<open>Two handles that differ in their padding only are the same handle to the scan.\<close>

theorem handle_identity_is_field_equality_witness:
  "registry_ok example_padded_one \<and>
   example_padded 0x55 \<noteq> example_padded 0xAA \<and>
   same_handle (example_padded 0x55) (example_padded 0xAA) \<and>
   find_handle (example_padded 0x55) example_padded_one 0 = Some True \<and>
   find_handle ((example_padded 0xAA)\<lparr>device_index := 1\<rparr>) example_padded_one 0 = Some False"
proof -
  have ok: "registry_ok example_padded_one"
    by (simp add: registry_ok_def example_padded_one_def vibration_device_list_size_def)
  have act: "active example_padded_one = [example_padded 0xAA]"
    by (simp add: active_def example_padded_one_def take_Suc_conv_app_nth)
  from handle_identity_is_field_equality [OF ok, of "example_padded 0x55" "example_padded 0xAA"]
    handle_identity_is_field_equality [OF ok,
      of "(example_padded 0xAA)\<lparr>device_index := 1\<rparr>" "example_padded 0xAA"]
    ok act
  show ?thesis by (simp add: example_padded_def)
qed

section \<open>Properties of the IHidServer commands\<close>

text \<open>
  The six activation commands that consult \<^verbatim>\<open>IsDeviceManaged\<close> and push the result share
  one body; \<open>managed_pattern\<close> is what that body does, for any of them.
\<close>

lemma managed_pattern:
  assumes H: "\<And>w0. H w0 =
     (let w1 = GetResourceManager env w0;
          (result, w2) =
            (if \<not> IsDeviceManaged env (ext w1) then delegate env (Activate d) w1
             else (ResultSuccess, w1))
      in if IsSuccess result
         then delegate env (ActivateAruid d aruid) w2
         else (result, w2))"
  shows "(let w1 = GetResourceManager env w0;
        managed = IsDeviceManaged env (ext w1);
        low = delegate env (Activate d) w1;
        attempted = (managed \<or> IsSuccess (fst low));
        session = delegate env (ActivateAruid d aruid) (if managed then w1 else snd low);
        (result, w') = H w0
    in calls w' = calls w0 @ [Initialize] @ (if managed then [] else [Activate d]) @
         (if attempted then [ActivateAruid d aruid] else []) \<and>
       result = (if attempted then fst session else fst low) \<and>
       IsSuccess result = (attempted \<and> IsSuccess (fst session)) \<and>
       w' = (if attempted then snd session else snd low))"
proof -
  have init: "calls (GetResourceManager env w0) = calls w0 @ [Initialize]"
    by (simp add: GetResourceManager_def delegate_def split: prod.splits)
  have dc: "calls (snd (delegate env c w)) = calls w @ [c]" for c w
    by (simp add: delegate_def split: prod.splits)
  show ?thesis
    unfolding H Let_def
    by (simp add: split_beta init dc IsSuccess_def ResultSuccess_def)
qed

lemma loop_after_error:
  "IsError result \<Longrightarrow>
   SendVibrationValues_loop env aruid hs vs i result w = Some (result, w)"
proof (induction env aruid hs vs i result w rule: SendVibrationValues_loop.induct)
  case (1 env aruid hs vs i result w)
  show ?case
  proof (cases "i < length hs")
    case True
    with "1.prems" have "SendVibrationValues_loop env aruid hs vs i result w =
        SendVibrationValues_loop env aruid hs vs (Suc i) result w"
      by (subst SendVibrationValues_loop.simps) (simp add: IsSuccess_iff)
    with True "1.prems" "1.IH"(2) show ?thesis by (simp add: IsSuccess_iff)
  next
    case False
    then show ?thesis by (subst SendVibrationValues_loop.simps) simp
  qed
qed

lemma loop_forwards:
  "length hs = length vs \<Longrightarrow> n = length hs - i \<Longrightarrow> i \<le> length hs \<Longrightarrow>
   SendVibrationValues_loop env aruid hs vs i ResultSuccess w =
     Some (forward_pairs env aruid (drop i (zip hs vs)) w)"
proof (induction n arbitrary: i w)
  case 0
  then have "i = length hs" by simp
  then show ?case using "0.prems"(1)
    by (subst SendVibrationValues_loop.simps) simp
next
  case (Suc n)
  then have lt: "i < length hs" "i < length vs" by simp_all
  then have dr: "drop i (zip hs vs) = (hs ! i, vs ! i) # drop (Suc i) (zip hs vs)"
    using Cons_nth_drop_Suc [of i "zip hs vs"] by simp
  obtain r w' where d: "delegate env (SendVibrationValue aruid (hs ! i) (vs ! i))
      (GetResourceManager env w) = (r, w')"
    by (cases "delegate env (SendVibrationValue aruid (hs ! i) (vs ! i))
      (GetResourceManager env w)")
  have step: "SendVibrationValues_loop env aruid hs vs i ResultSuccess w =
      SendVibrationValues_loop env aruid hs vs (Suc i) r w'"
    using lt d by (subst SendVibrationValues_loop.simps) (simp add: IsSuccess_def ResultSuccess_def)
  show ?case
  proof (cases "IsError r")
    case True
    with step d dr show ?thesis by (simp add: loop_after_error)
  next
    case False
    then have "r = ResultSuccess" by (simp add: IsError_def ResultSuccess_def)
    with Suc.IH [of "Suc i" w'] Suc.prems lt step d dr False show ?thesis by simp
  qed
qed

lemma example_GetResourceManager:
  "GetResourceManager (example_env managed answer) w =
     \<lparr>ext = Suc (ext w), calls = calls w @ [Initialize]\<rparr>"
  by (simp add: GetResourceManager_def example_delegate)

section \<open>The claims about the IHidServer commands\<close>

text \<open>
  C5 (managed-mode skip). For \<^verbatim>\<open>ActivateDebugPad\<close>, \<^verbatim>\<open>ActivateTouchScreen\<close>, \<^verbatim>\<open>ActivateMouse\<close>,
  \<^verbatim>\<open>ActivateKeyboard\<close>, \<^verbatim>\<open>ActivateGesture\<close> and \<^verbatim>\<open>ActivateConsoleSixAxisSensor\<close>: after the
  resource manager is initialised, the device's \<^verbatim>\<open>Activate()\<close> is called exactly when
  \<^verbatim>\<open>IsDeviceManaged()\<close> is false; \<^verbatim>\<open>Activate(applet_resource_user_id)\<close> is called exactly when
  that step was skipped or succeeded; and the result pushed is that of the last call
  made, that is, the first failing result, else success (it is success exactly when the
  second call was made and succeeded).
\<close>

theorem managed_mode_skip:
  assumes "(d, H) \<in> set
     [(DebugPad, ActivateDebugPad env), (TouchScreen, ActivateTouchScreen env),
      (Mouse, ActivateMouse env), (Keyboard, ActivateKeyboard env),
      (Gesture, ActivateGesture env basic_gesture_id),
      (ConsoleSixAxis, ActivateConsoleSixAxisSensor env)]"
  shows "(let w1 = GetResourceManager env w0;
        managed = IsDeviceManaged env (ext w1);
        low = delegate env (Activate d) w1;
        attempted = (managed \<or> IsSuccess (fst low));
        session = delegate env (ActivateAruid d aruid) (if managed then w1 else snd low);
        (result, w') = H aruid w0
    in calls w' = calls w0 @ [Initialize] @ (if managed then [] else [Activate d]) @
         (if attempted then [ActivateAruid d aruid] else []) \<and>
       result = (if attempted then fst session else fst low) \<and>
       IsSuccess result = (attempted \<and> IsSuccess (fst session)) \<and>
       w' = (if attempted then snd session else snd low))"
proof -
  from assms consider
      "d = DebugPad" "H = ActivateDebugPad env"
    | "d = TouchScreen" "H = ActivateTouchScreen env"
    | "d = Mouse" "H = ActivateMouse env"
    | "d = Keyboard" "H = ActivateKeyboard env"
    | "d = Gesture" "H = ActivateGesture env basic_gesture_id"
    | "d = ConsoleSixAxis" "H = ActivateConsoleSixAxisSensor env"
    by auto
  then show ?thesis
  proof cases
    case 1
    show ?thesis unfolding 1
      by (rule managed_pattern [where H = "ActivateDebugPad env aruid"])
        (rule ActivateDebugPad_def)
  next
    case 2
    show ?thesis unfolding 2
      by (rule managed_pattern [where H = "ActivateTouchScreen env aruid"])
        (rule ActivateTouchScreen_def)
  next
    case 3
    show ?thesis unfolding 3
      by (rule managed_pattern [where H = "ActivateMouse env aruid"])
        (rule ActivateMouse_def)
  next
    case 4
    show ?thesis unfolding 4
      by (rule managed_pattern [where H = "ActivateKeyboard env aruid"])
        (rule ActivateKeyboard_def)
  next
    case 5
    show ?thesis unfolding 5
      by (rule managed_pattern [where H = "ActivateGesture env basic_gesture_id aruid"])
        (rule ActivateGesture_def)
  next
    case 6
    show ?thesis unfolding 6
      by (rule managed_pattern [where H = "ActivateConsoleSixAxisSensor env aruid"])
        (rule ActivateConsoleSixAxisSensor_def)
  qed
qed

text \<open>The theorem at \<^verbatim>\<open>ActivateMouse\<close>, unmanaged, with a mouse that fails to activate.\<close>

theorem managed_mode_skip_witness:
  "(Mouse, ActivateMouse (example_env False (example_answer (Activate Mouse)))) \<in> set
     [(DebugPad, ActivateDebugPad (example_env False (example_answer (Activate Mouse)))),
      (TouchScreen, ActivateTouchScreen (example_env False (example_answer (Activate Mouse)))),
      (Mouse, ActivateMouse (example_env False (example_answer (Activate Mouse)))),
      (Keyboard, ActivateKeyboard (example_env False (example_answer (Activate Mouse)))),
      (Gesture, ActivateGesture (example_env False (example_answer (Activate Mouse))) 0),
      (ConsoleSixAxis,
       ActivateConsoleSixAxisSensor (example_env False (example_answer (Activate Mouse))))] \<and>
   ActivateMouse (example_env False (example_answer (Activate Mouse))) 7 example_world
     = (1, \<lparr>ext = 2, calls = [Initialize, Activate Mouse]\<rparr>) \<and>
   IsError 1"
proof -
  let ?env = "example_env False (example_answer (Activate Mouse))"
  have m: "(Mouse, ActivateMouse ?env) \<in> set
     [(DebugPad, ActivateDebugPad ?env), (TouchScreen, ActivateTouchScreen ?env),
      (Mouse, ActivateMouse ?env), (Keyboard, ActivateKeyboard ?env),
      (Gesture, ActivateGesture ?env 0),
      (ConsoleSixAxis, ActivateConsoleSixAxisSensor ?env)]"
    by simp
  from managed_mode_skip [OF m, of example_world 7]
  have "ActivateMouse ?env 7 example_world
      = (1, \<lparr>ext = 2, calls = [Initialize, Activate Mouse]\<rparr>)"
    by (simp add: Let_def split_beta example_GetResourceManager example_delegate
        example_constants example_answer_def example_world_def IsSuccess_def prod_eq_iff)
  with m show ?thesis by (simp add: IsError_def)
qed

text \<open>
  C6 (the fixed id list). \<^verbatim>\<open>GetXpadIds\<close> writes the array 0, 1, 2, 3, pushes success and the
  count 4, and leaves the world outside as it found it; what it returns does not depend
  on that world.
\<close>

theorem get_xpad_ids_fixed:
  "GetXpadIds w =
     (\<lparr>write_buffer = [0, 1, 2, 3], pushed_result = ResultSuccess, pushed_s64 = 4\<rparr>, w) \<and>
   fst (GetXpadIds w) = fst (GetXpadIds w') \<and>
   IsSuccess (pushed_result (fst (GetXpadIds w)))"
  by (simp add: GetXpadIds_def IsSuccess_def ResultSuccess_def)

text \<open>
  C7 (stubbed commands). \<^verbatim>\<open>ActivateXpad\<close>, \<^verbatim>\<open>SendKeyboardLockKeyEvent\<close>, \<^verbatim>\<open>DeactivateNpad\<close> and
  \<^verbatim>\<open>SetNpadCommunicationMode\<close> push success for every value of their parameters and leave
  the world outside, the log of delegate calls included, as they found it.
\<close>

theorem stubbed_commands_fixed:
  "ActivateXpad basic_xpad_id applet_resource_user_id w = (ResultSuccess, w) \<and>
   SendKeyboardLockKeyEvent flags w = (ResultSuccess, w) \<and>
   DeactivateNpad applet_resource_user_id w = (ResultSuccess, w) \<and>
   SetNpadCommunicationMode applet_resource_user_id communication_mode w = (ResultSuccess, w) \<and>
   IsSuccess ResultSuccess"
  by (simp add: ActivateXpad_def SendKeyboardLockKeyEvent_def DeactivateNpad_def
      SetNpadCommunicationMode_def IsSuccess_def ResultSuccess_def)

text \<open>
  C9 (\<^verbatim>\<open>ActivateSevenSixAxisSensor\<close> always pushes success). Whatever the two delegate calls
  return, the result pushed is \<^verbatim>\<open>ResultSuccess\<close>; the result of \<^verbatim>\<open>Activate()\<close> only decides
  whether \<^verbatim>\<open>Activate(applet_resource_user_id)\<close> is called.
\<close>

theorem seven_six_axis_always_success:
  "(let w1 = GetResourceManager env w0;
        managed = IsDeviceManaged env (ext w1);
        low = delegate env (Activate SevenSixAxis) w1;
        attempted = (managed \<or> IsSuccess (fst low));
        session = delegate env (ActivateAruid SevenSixAxis aruid)
                    (if managed then w1 else snd low);
        (result, w') = ActivateSevenSixAxisSensor env aruid w0
    in result = ResultSuccess \<and>
       calls w' = calls w0 @ [Initialize] @ (if managed then [] else [Activate SevenSixAxis]) @
         (if attempted then [ActivateAruid SevenSixAxis aruid] else []) \<and>
       w' = (if attempted then snd session else snd low))"
proof -
  have init: "calls (GetResourceManager env w0) = calls w0 @ [Initialize]"
    by (simp add: GetResourceManager_def delegate_def split: prod.splits)
  have dc: "calls (snd (delegate env c w)) = calls w @ [c]" for c w
    by (simp add: delegate_def split: prod.splits)
  show ?thesis
    unfolding ActivateSevenSixAxisSensor_def Let_def
    by (simp add: split_beta init dc IsSuccess_def ResultSuccess_def)
qed

text \<open>The theorem with a sensor whose every call fails, unmanaged and managed.\<close>

theorem seven_six_axis_always_success_witness:
  "ActivateSevenSixAxisSensor (example_env False (\<lambda>c. 1)) 7 example_world
     = (ResultSuccess, \<lparr>ext = 2, calls = [Initialize, Activate SevenSixAxis]\<rparr>) \<and>
   ActivateSevenSixAxisSensor (example_env True (\<lambda>c. 1)) 7 example_world
     = (ResultSuccess, \<lparr>ext = 2, calls = [Initialize, ActivateAruid SevenSixAxis 7]\<rparr>) \<and>
   IsError 1"
proof -
  from seven_six_axis_always_success [of "example_env False (\<lambda>c. 1)" example_world 7]
  have a: "ActivateSevenSixAxisSensor (example_env False (\<lambda>c. 1)) 7 example_world
     = (ResultSuccess, \<lparr>ext = 2, calls = [Initialize, Activate SevenSixAxis]\<rparr>)"
    by (simp add: Let_def split_beta example_GetResourceManager example_delegate
        example_constants example_world_def IsSuccess_def prod_eq_iff)
  from seven_six_axis_always_success [of "example_env True (\<lambda>c. 1)" example_world 7]
  have b: "ActivateSevenSixAxisSensor (example_env True (\<lambda>c. 1)) 7 example_world
     = (ResultSuccess, \<lparr>ext = 2, calls = [Initialize, ActivateAruid SevenSixAxis 7]\<rparr>)"
    by (simp add: Let_def split_beta example_GetResourceManager example_delegate
        example_constants example_world_def IsSuccess_def prod_eq_iff)
  from a b show ?thesis by (simp add: IsError_def)
qed

text \<open>
  C10 (\<^verbatim>\<open>SendVibrationValues\<close>). When the two element counts differ, the command returns
  \<^verbatim>\<open>ResultVibrationArraySizeMismatch\<close> (an error code) and makes no call at all. When they
  agree, it does what \<open>forward_pairs\<close> says: the pairs go to the resource manager in buffer
  order up to and including the first one that fails, and the result is that first
  error, or success when no call fails.
\<close>

theorem send_vibration_values:
  "(IsError (ResultVibrationArraySizeMismatch env) \<and> length hs \<noteq> length vs \<longrightarrow>
      SendVibrationValues env aruid hs vs w = Some (ResultVibrationArraySizeMismatch env, w)) \<and>
   (length hs = length vs \<longrightarrow>
      SendVibrationValues env aruid hs vs w = Some (forward_pairs env aruid (zip hs vs) w))"
  using loop_forwards [of hs vs "length hs" 0 env aruid w]
  by (simp add: SendVibrationValues_def loop_after_error)

text \<open>The theorem at counts 1 and 2, and at three pairs of which the second fails.\<close>

theorem send_vibration_values_witness:
  "IsError (ResultVibrationArraySizeMismatch (example_env False (\<lambda>c. 0))) \<and>
   length [example_handle 0] \<noteq> length [10, 20 :: nat] \<and>
   SendVibrationValues (example_env False (\<lambda>c. 0)) 7 [example_handle 0] [10, 20] example_world
     = Some (0x106CA, example_world) \<and>
   length [example_handle 0, example_handle 1, example_handle 2] = length [10, 20, 30 :: nat] \<and>
   SendVibrationValues
       (example_env False (example_answer (SendVibrationValue 7 (example_handle 1) 20))) 7
       [example_handle 0, example_handle 1, example_handle 2] [10, 20, 30] example_world
     = Some (1, \<lparr>ext = 4, calls =
         [Initialize, SendVibrationValue 7 (example_handle 0) 10,
          Initialize, SendVibrationValue 7 (example_handle 1) 20]\<rparr>)"
proof -
  let ?env = "example_env False (\<lambda>c. 0) :: (nat, unit, nat) Collaborators"
  let ?fail = "example_env False (example_answer (SendVibrationValue 7 (example_handle 1) 20))"
  have e: "IsError (ResultVibrationArraySizeMismatch ?env)"
    by (simp add: example_constants IsError_def)
  from send_vibration_values [of ?env "[example_handle 0]" "[10, 20]" 7 example_world] e
  have a: "SendVibrationValues ?env 7 [example_handle 0] [10, 20] example_world
      = Some (0x106CA, example_world)"
    by (simp add: example_constants)
  have ne: "example_handle 0 \<noteq> example_handle 1"
    by (simp add: example_handle_def)
  from send_vibration_values [of ?fail "[example_handle 0, example_handle 1, example_handle 2]"
      "[10, 20, 30]" 7 example_world]
  have b: "SendVibrationValues ?fail 7
       [example_handle 0, example_handle 1, example_handle 2] [10, 20, 30] example_world
     = Some (1, \<lparr>ext = 4, calls =
         [Initialize, SendVibrationValue 7 (example_handle 0) 10,
          Initialize, SendVibrationValue 7 (example_handle 1) 20]\<rparr>)"
    using ne
    by (simp add: example_GetResourceManager example_delegate example_answer_def
        example_world_def IsError_def)
  from e a b show ?thesis by simp
qed

end
